theory Spec2Isabelle
  imports Main
begin

section \<open>JSON values and the Python operations applied to them\<close>

text \<open>
  The engine (\<^verbatim>\<open>frassum.py\<close>) works on decoded JSON: \<^verbatim>\<open>None\<close>, booleans, integers,
  strings, lists and dicts with string keys. A dict keeps its insertion order, so it is
  an association list; Python never holds one key twice. JSON numbers are modelled as
  Python's unbounded integers only (the protocol's versions and sync kinds are integers).
\<close>

datatype json =
    JNull
  | JBool bool
  | JInt int
  | JStr string
  | JArr "json list"
  | JObj "(string \<times> json) list"

text \<open>
  The exceptions the modelled code can raise. \<open>ReprNotModelled\<close> is not a Python
  exception: it marks the one place where the model stops, the text that an f-string
  produces for a list or a dict.
\<close>

datatype error = AttributeError | TypeError | KeyError | ReprNotModelled

definition bind_r :: "error + 'a \<Rightarrow> ('a \<Rightarrow> error + 'b) \<Rightarrow> error + 'b" where
  "bind_r m f = (case m of Inl e \<Rightarrow> Inl e | Inr x \<Rightarrow> f x)"

fun truthy :: "json \<Rightarrow> bool" where
  "truthy JNull = False"
| "truthy (JBool b) = b"
| "truthy (JInt i) = (i \<noteq> 0)"
| "truthy (JStr s) = (s \<noteq> [])"
| "truthy (JArr xs) = (xs \<noteq> [])"
| "truthy (JObj kvs) = (kvs \<noteq> [])"

definition py_or :: "json \<Rightarrow> json \<Rightarrow> json" where
  "py_or a b = (if truthy a then a else b)"

fun is_dict :: "json \<Rightarrow> bool" where
  "is_dict (JObj kvs) = True"
| "is_dict _ = False"

text \<open>\<^verbatim>\<open>util.is_scalar\<close>: anything but a dict, list, set or tuple.\<close>

fun is_scalar :: "json \<Rightarrow> bool" where
  "is_scalar (JArr xs) = False"
| "is_scalar (JObj kvs) = False"
| "is_scalar _ = True"

text \<open>Python's \<^verbatim>\<open>==\<close>: \<^verbatim>\<open>True == 1\<close>, and two dicts are equal whatever their order.\<close>

fun py_eq :: "json \<Rightarrow> json \<Rightarrow> bool"
  and py_eq_list :: "json list \<Rightarrow> json list \<Rightarrow> bool"
  and py_eq_items :: "(string \<times> json) list \<Rightarrow> (string \<times> json) list \<Rightarrow> bool" where
  "py_eq JNull JNull = True"
| "py_eq (JBool a) (JBool b) = (a = b)"
| "py_eq (JBool a) (JInt j) = ((if a then 1 else 0) = j)"
| "py_eq (JInt i) (JBool b) = (i = (if b then 1 else 0))"
| "py_eq (JInt i) (JInt j) = (i = j)"
| "py_eq (JStr s) (JStr t) = (s = t)"
| "py_eq (JArr xs) (JArr ys) = py_eq_list xs ys"
| "py_eq (JObj a) (JObj b) = (length a = length b \<and> py_eq_items a b)"
| "py_eq _ _ = False"
| "py_eq_list [] [] = True"
| "py_eq_list (x # xs) (y # ys) = (py_eq x y \<and> py_eq_list xs ys)"
| "py_eq_list _ _ = False"
| "py_eq_items [] b = True"
| "py_eq_items ((k, v) # a) b =
     ((case map_of b k of None \<Rightarrow> False | Some w \<Rightarrow> py_eq v w) \<and> py_eq_items a b)"

text \<open>Python's \<^verbatim>\<open><\<close>: numbers, strings (by code point) and lists compare; the rest raises.\<close>

fun str_lt :: "string \<Rightarrow> string \<Rightarrow> bool" where
  "str_lt [] [] = False"
| "str_lt [] (d # ds) = True"
| "str_lt (c # cs) [] = False"
| "str_lt (c # cs) (d # ds) =
     (if (of_char c :: nat) < of_char d then True
      else if c = d then str_lt cs ds else False)"

fun py_lt :: "json \<Rightarrow> json \<Rightarrow> error + bool"
  and py_lt_list :: "json list \<Rightarrow> json list \<Rightarrow> error + bool" where
  "py_lt (JBool a) (JBool b) = Inr (\<not> a \<and> b)"
| "py_lt (JBool a) (JInt j) = Inr ((if a then 1 else 0) < j)"
| "py_lt (JInt i) (JBool b) = Inr (i < (if b then 1 else 0))"
| "py_lt (JInt i) (JInt j) = Inr (i < j)"
| "py_lt (JStr s) (JStr t) = Inr (str_lt s t)"
| "py_lt (JArr xs) (JArr ys) = py_lt_list xs ys"
| "py_lt _ _ = Inl TypeError"
| "py_lt_list [] [] = Inr False"
| "py_lt_list [] (y # ys) = Inr True"
| "py_lt_list (x # xs) [] = Inr False"
| "py_lt_list (x # xs) (y # ys) = (if py_eq x y then py_lt_list xs ys else py_lt x y)"

text \<open>Python's \<^verbatim>\<open>+\<close> on the values the engine adds.\<close>

fun py_add :: "json \<Rightarrow> json \<Rightarrow> error + json" where
  "py_add (JArr xs) (JArr ys) = Inr (JArr (xs @ ys))"
| "py_add (JStr s) (JStr t) = Inr (JStr (s @ t))"
| "py_add (JBool a) (JBool b) = Inr (JInt ((if a then 1 else 0) + (if b then 1 else 0)))"
| "py_add (JBool a) (JInt j) = Inr (JInt ((if a then 1 else 0) + j))"
| "py_add (JInt i) (JBool b) = Inr (JInt (i + (if b then 1 else 0)))"
| "py_add (JInt i) (JInt j) = Inr (JInt (i + j))"
| "py_add _ _ = Inl TypeError"

subsection \<open>Strings\<close>

definition startswith :: "string \<Rightarrow> string \<Rightarrow> bool" where
  "startswith s p = (take (length p) s = p)"

definition endswith :: "string \<Rightarrow> string \<Rightarrow> bool" where
  "endswith s p = (length p \<le> length s \<and> drop (length s - length p) s = p)"

text \<open>\<^verbatim>\<open>sub in s\<close> for two strings.\<close>

fun substring :: "string \<Rightarrow> string \<Rightarrow> bool" where
  "substring sub [] = (sub = [])"
| "substring sub (c # cs) = (startswith (c # cs) sub \<or> substring sub cs)"

fun digits :: "nat \<Rightarrow> string" where
  "digits n =
     (if n < 10 then [char_of (48 + n)]
      else digits (n div 10) @ [char_of (48 + n mod 10)])"

definition str_of_int :: "int \<Rightarrow> string" where
  "str_of_int i = (if i < 0 then CHR ''-'' # digits (nat (- i)) else digits (nat i))"

text \<open>What an f-string field \<^verbatim>\<open>{x}\<close> prints.\<close>

fun py_format :: "json \<Rightarrow> error + string" where
  "py_format JNull = Inr ''None''"
| "py_format (JBool b) = Inr (if b then ''True'' else ''False'')"
| "py_format (JInt i) = Inr (str_of_int i)"
| "py_format (JStr s) = Inr s"
| "py_format (JArr xs) = Inl ReprNotModelled"
| "py_format (JObj kvs) = Inl ReprNotModelled"

subsection \<open>Dicts and the other containers\<close>

text \<open>\<^verbatim>\<open>d[k] = v\<close> on a dict: an existing key keeps its place, a new key goes last.\<close>

fun dict_set :: "('k \<times> 'v) list \<Rightarrow> 'k \<Rightarrow> 'v \<Rightarrow> ('k \<times> 'v) list" where
  "dict_set [] k v = [(k, v)]"
| "dict_set ((k', v') # kvs) k v =
     (if k' = k then (k, v) # kvs else (k', v') # dict_set kvs k v)"


text \<open>\<^verbatim>\<open>x.get(k, default)\<close>: only a dict has \<^verbatim>\<open>get\<close>.\<close>

fun py_get :: "json \<Rightarrow> string \<Rightarrow> json \<Rightarrow> error + json" where
  "py_get (JObj kvs) k dflt = Inr (case map_of kvs k of None \<Rightarrow> dflt | Some v \<Rightarrow> v)"
| "py_get _ k dflt = Inl AttributeError"

text \<open>\<^verbatim>\<open>x[k]\<close> with a string \<open>k\<close>.\<close>

fun py_getitem :: "json \<Rightarrow> string \<Rightarrow> error + json" where
  "py_getitem (JObj kvs) k = (case map_of kvs k of None \<Rightarrow> Inl KeyError | Some v \<Rightarrow> Inr v)"
| "py_getitem _ k = Inl TypeError"

text \<open>\<^verbatim>\<open>x[k] = v\<close> with a string \<open>k\<close>.\<close>

fun py_setitem :: "json \<Rightarrow> string \<Rightarrow> json \<Rightarrow> error + json" where
  "py_setitem (JObj kvs) k v = Inr (JObj (dict_set kvs k v))"
| "py_setitem _ k v = Inl TypeError"

text \<open>\<^verbatim>\<open>k in x\<close> with a string \<open>k\<close>: a key of a dict, an element of a list, a substring.\<close>

fun py_contains :: "string \<Rightarrow> json \<Rightarrow> error + bool" where
  "py_contains k (JObj kvs) = Inr (map_of kvs k \<noteq> None)"
| "py_contains k (JArr xs) = Inr (list_ex (\<lambda>x. py_eq x (JStr k)) xs)"
| "py_contains k (JStr s) = Inr (substring k s)"
| "py_contains k _ = Inl TypeError"

text \<open>\<^verbatim>\<open>for e in x\<close>: the elements of a list, the keys of a dict, the characters of a string.\<close>

fun py_iter :: "json \<Rightarrow> error + json list" where
  "py_iter (JArr xs) = Inr xs"
| "py_iter (JObj kvs) = Inr (map (\<lambda>kv. JStr (fst kv)) kvs)"
| "py_iter (JStr s) = Inr (map (\<lambda>c. JStr [c]) s)"
| "py_iter _ = Inl TypeError"

text \<open>\<^verbatim>\<open>x.items()\<close>.\<close>

fun py_items :: "json \<Rightarrow> error + (string \<times> json) list" where
  "py_items (JObj kvs) = Inr kvs"
| "py_items _ = Inl AttributeError"

text \<open>
  A value used as the key of a Python dict: lists and dicts are unhashable, and
  \<^verbatim>\<open>True\<close> and \<^verbatim>\<open>1\<close> are one key.
\<close>

fun dict_key :: "json \<Rightarrow> error + json" where
  "dict_key (JArr xs) = Inl TypeError"
| "dict_key (JObj kvs) = Inl TypeError"
| "dict_key (JBool b) = Inr (JInt (if b then 1 else 0))"
| "dict_key x = Inr x"

section \<open>Servers and the engine state\<close>

text \<open>
  A \<^verbatim>\<open>Server\<close> is a mutable object: the engine, the candidate lists and the data
  cookies hold references to it. A reference is an address, the heap gives the object
  at each address. \<^verbatim>\<open>@dataclass\<close> generates \<^verbatim>\<open>__eq__\<close>, which compares
  \<^verbatim>\<open>(name, caps, cookie)\<close> field by field; the \<^verbatim>\<open>cookie\<close> slot holds \<^verbatim>\<open>None\<close> or
  some object, compared as plain objects are, by identity.
\<close>

type_synonym ref = nat

record Server =
  name :: json
  caps :: json
  cookie :: "ref option"

type_synonym heap = "ref \<Rightarrow> Server"

definition server_eq :: "Server \<Rightarrow> Server \<Rightarrow> bool" where
  "server_eq a b = (py_eq (name a) (name b) \<and> py_eq (caps a) (caps b) \<and> cookie a = cookie b)"

record DataCookie =
  data :: json
  server :: ref

record LspLogic =
  primary_server :: ref
  document_versions :: "(json \<times> json) list"
  data_cookies :: "string \<rightharpoonup> DataCookie"
  data_cookie_counter :: int

text \<open>\<^verbatim>\<open>LspLogic.__init__\<close>.\<close>

definition init :: "ref \<Rightarrow> LspLogic" where
  "init primary =
     \<lparr>primary_server = primary, document_versions = [],
      data_cookies = Map.empty, data_cookie_counter = 0\<rparr>"

section \<open>Routing\<close>

text \<open>
  \<^verbatim>\<open>[s for s in servers if s.caps.get(cap)]\<close> and the loop that returns the first such
  server. The loop stops at its first hit, so it never reads the servers after it.
\<close>

fun supporting :: "heap \<Rightarrow> string \<Rightarrow> ref list \<Rightarrow> error + ref list" where
  "supporting h cap [] = Inr []"
| "supporting h cap (s # ss) =
     bind_r (py_get (caps (h s)) cap JNull) (\<lambda>c.
     bind_r (supporting h cap ss) (\<lambda>rest.
       Inr (if truthy c then s # rest else rest)))"

fun first_supporting :: "heap \<Rightarrow> string \<Rightarrow> ref list \<Rightarrow> error + ref list" where
  "first_supporting h cap [] = Inr []"
| "first_supporting h cap (s # ss) =
     bind_r (py_get (caps (h s)) cap JNull) (\<lambda>c.
       if truthy c then Inr [s] else first_supporting h cap ss)"

definition single_target_caps :: "(string \<times> string) list" where
  "single_target_caps =
     [(''textDocument/rename'', ''renameProvider''),
      (''textDocument/formatting'', ''documentFormattingProvider''),
      (''textDocument/rangeFormatting'', ''documentRangeFormattingProvider'')]"

text \<open>
  The data cookie that a request recovers, if any: \<open>data\<close> is a string with the prefix
  and a key of the cookie table.
\<close>

fun recovered_cookie :: "LspLogic \<Rightarrow> json \<Rightarrow> DataCookie option" where
  "recovered_cookie st (JStr s) =
     (if startswith s ''rassumfrassum-'' then data_cookies st s else None)"
| "recovered_cookie st _ = None"

text \<open>
  \<^verbatim>\<open>servers_to_route_to\<close> returns the servers and, since it may rewrite \<^verbatim>\<open>params\<close> in
  place, the parameters as they are after the call. \<open>cookie_candidate\<close> is its local
  \<^verbatim>\<open>data\<close>. Every capability name of the table is a non-empty string, which is why
  the test of \<^verbatim>\<open>if cap := ....get(method)\<close> is the test that the method is in the table.
\<close>

definition cookie_candidate :: "string \<Rightarrow> json \<Rightarrow> error + json" where
  "cookie_candidate method params =
     (if truthy params \<and> endswith method ''resolve''
      then py_get params ''data'' JNull else Inr JNull)"

definition servers_to_route_to ::
  "LspLogic \<Rightarrow> heap \<Rightarrow> string \<Rightarrow> json \<Rightarrow> ref list \<Rightarrow> error + (json \<times> ref list)" where
  "servers_to_route_to st h method params servers =
     bind_r (cookie_candidate method params) (\<lambda>d.
       case recovered_cookie st d of
         Some c \<Rightarrow>
           bind_r (py_setitem params ''data'' (data c)) (\<lambda>params'.
             Inr (params', [server c]))
       | None \<Rightarrow>
           if method \<in> set [''initialize'', ''shutdown''] then Inr (params, servers)
           else if method = ''textDocument/codeAction'' then
             bind_r (supporting h ''codeActionProvider'' servers) (\<lambda>ss. Inr (params, ss))
           else
             (case map_of single_target_caps method of
                Some cap \<Rightarrow>
                  bind_r (first_supporting h cap servers) (\<lambda>ss. Inr (params, ss))
              | None \<Rightarrow>
                  Inr (params, if servers \<noteq> [] then [primary_server st] else [])))"

section \<open>Tracking document versions\<close>



section \<open>Aggregation policy\<close>

text \<open>
  The result of \<^verbatim>\<open>get_notif_aggregation_key\<close>: \<^verbatim>\<open>None\<close>, the tuple \<^verbatim>\<open>("drop",)\<close>, or
  the tuple of a tag, the method, the URI and the version.
\<close>

datatype notif_key = Drop | Key string string json json

definition get_notif_aggregation_key ::
  "LspLogic \<Rightarrow> string option \<Rightarrow> json \<Rightarrow> error + notif_key option" where
  "get_notif_aggregation_key st method payload =
     (if method = Some ''textDocument/publishDiagnostics'' then
        bind_r (py_get payload ''uri'' (JStr [])) (\<lambda>uri.
        bind_r (py_get payload ''version'' JNull) (\<lambda>version.
        bind_r (dict_key uri) (\<lambda>k.
          case map_of (document_versions st) k of
            Some tracked_version \<Rightarrow>
              if version = JNull then
                Inr (Some (Key ''notification'' ''textDocument/publishDiagnostics'' uri
                             (py_or tracked_version (JInt 0))))
              else
                bind_r (py_lt version tracked_version) (\<lambda>stale.
                  if stale then Inr (Some Drop)
                  else Inr (Some (Key ''notification'' ''textDocument/publishDiagnostics'' uri
                                    (py_or version (JInt 0)))))
          | None \<Rightarrow>
              Inr (Some (Key ''notification'' ''textDocument/publishDiagnostics'' uri
                           (py_or version (JInt 0)))))))
      else Inr None)"

definition get_aggregation_timeout_ms :: "string option \<Rightarrow> int" where
  "get_aggregation_timeout_ms method =
     (if method = Some ''textDocument/publishDiagnostics'' then 1000 else 1500)"

section \<open>Data cookies\<close>

text \<open>
  \<^verbatim>\<open>_stash_data_maybe\<close> counts before it reads \<^verbatim>\<open>payload['data']\<close>, so the engine is
  returned in every case, next to the payload as it is after the call or the exception.
\<close>

definition stash_data_maybe :: "LspLogic \<Rightarrow> json \<Rightarrow> ref \<Rightarrow> LspLogic \<times> (error + json)" where
  "stash_data_maybe st payload srv =
     (if \<not> truthy payload then (st, Inr payload)
      else case py_contains ''data'' payload of
        Inl e \<Rightarrow> (st, Inl e)
      | Inr False \<Rightarrow> (st, Inr payload)
      | Inr True \<Rightarrow>
          (let st1 = st\<lparr>data_cookie_counter := data_cookie_counter st + 1\<rparr>;
               cookie_id = ''rassumfrassum-'' @ str_of_int (data_cookie_counter st1)
           in case py_getitem payload ''data'' of
                Inl e \<Rightarrow> (st1, Inl e)
              | Inr d \<Rightarrow>
                  (st1\<lparr>data_cookies :=
                         (data_cookies st1)(cookie_id \<mapsto> \<lparr>data = d, server = srv\<rparr>)\<rparr>,
                   py_setitem payload ''data'' (JStr cookie_id))))"

text \<open>
  Calls of \<^verbatim>\<open>_stash_data_maybe\<close> one after the other, each on the engine that the
  one before left, also when that one raised.
\<close>

fun stash_all :: "LspLogic \<Rightarrow> (json \<times> ref) list \<Rightarrow> LspLogic" where
  "stash_all st [] = st"
| "stash_all st ((payload, srv) # rest) = stash_all (fst (stash_data_maybe st payload srv)) rest"

section \<open>Merging payloads\<close>

text \<open>
  \<^verbatim>\<open>util.dmerge\<close>, on the items of the two dicts: the first argument is the copy of
  \<^verbatim>\<open>d1\<close> that the loop over \<^verbatim>\<open>d2.items()\<close> fills. For a key that the result
  has, the branches of the source are told apart by the shapes of the two values: two
  dicts are merged, two lists are joined, a scalar gives way to a list or dict, a list
  or dict is written back over a scalar, and any other pair (two scalars, a dict and a
  list) leaves the entry.
\<close>

fun dmerge :: "(string \<times> json) list \<Rightarrow> (string \<times> json) list \<Rightarrow> (string \<times> json) list" where
  "dmerge result [] = result"
| "dmerge result ((key, v2) # rest) =
     dmerge
       (case map_of result key of
          None \<Rightarrow> dict_set result key v2
        | Some v1 \<Rightarrow>
            (case v2 of
               JObj d2 \<Rightarrow>
                 (case v1 of
                    JObj d1 \<Rightarrow> dict_set result key (JObj (dmerge d1 d2))
                  | JArr l1 \<Rightarrow> result
                  | _ \<Rightarrow> dict_set result key v2)
             | JArr l2 \<Rightarrow>
                 (case v1 of
                    JArr l1 \<Rightarrow> dict_set result key (JArr (l1 @ l2))
                  | JObj d1 \<Rightarrow> result
                  | _ \<Rightarrow> dict_set result key v2)
             | _ \<Rightarrow> (if is_scalar v1 then result else dict_set result key v1)))
       rest"

text \<open>The test \<^verbatim>\<open>t1sync\<close> of the capability loop.\<close>

fun t1sync :: "json \<Rightarrow> bool" where
  "t1sync (JObj kvs) =
     py_eq (case map_of kvs ''change'' of None \<Rightarrow> JNull | Some c \<Rightarrow> c) (JInt 1)"
| "t1sync x = py_eq x (JInt 1)"

text \<open>One turn of the loop over \<^verbatim>\<open>new.items()\<close>, on the dict \<^verbatim>\<open>res\<close>.\<close>

definition merge_cap :: "json \<Rightarrow> string \<times> json \<Rightarrow> error + json" where
  "merge_cap res item =
     (let cap = fst item; newval = snd item in
      bind_r (py_get res cap JNull) (\<lambda>cur.
        if cur = JNull then py_setitem res cap newval
        else if cap = ''textDocumentSync'' \<and> t1sync newval then py_setitem res cap newval
        else if is_scalar newval \<and> cur = JNull then py_setitem res cap newval
        else if is_scalar cur \<and> \<not> is_scalar newval then py_setitem res cap newval
        else if is_dict cur \<and> is_dict newval \<and> cap \<notin> set [''semanticTokensProvider''] then
          (case (cur, newval) of
             (JObj d1, JObj d2) \<Rightarrow> py_setitem res cap (JObj (dmerge d1 d2))
           | _ \<Rightarrow> Inr res)
        else Inr res))"

fun merge_caps :: "json \<Rightarrow> (string \<times> json) list \<Rightarrow> error + json" where
  "merge_caps res [] = Inr res"
| "merge_caps res (item # items) =
     bind_r (merge_cap res item) (\<lambda>res'. merge_caps res' items)"

text \<open>The local function \<^verbatim>\<open>merge_field\<close>; it reads the aggregate, the reply's
  \<^verbatim>\<open>serverInfo\<close> and \<^verbatim>\<open>primary_payload\<close> from the enclosing call.\<close>

definition merge_field :: "json \<Rightarrow> json \<Rightarrow> bool \<Rightarrow> string \<Rightarrow> string \<Rightarrow> error + json" where
  "merge_field aggregate s_info primary_payload field s =
     bind_r (py_get aggregate ''serverInfo'' (JObj [])) (\<lambda>merged_info.
     bind_r (py_get merged_info field (JStr [])) (\<lambda>cur.
     bind_r (py_get s_info field (JStr [])) (\<lambda>new.
       if \<not> (truthy cur \<and> truthy new) then Inr (py_or new cur)
       else
         bind_r (py_format new) (\<lambda>new_text.
         bind_r (py_format cur) (\<lambda>cur_text.
           Inr (JStr (if primary_payload then new_text @ s @ cur_text
                      else cur_text @ s @ new_text)))))))"

definition merge_initialize_payloads ::
  "LspLogic \<Rightarrow> heap \<Rightarrow> json \<Rightarrow> json \<Rightarrow> ref \<Rightarrow> error + json" where
  "merge_initialize_payloads st h aggregate payload source =
     (let primary_payload = server_eq (h source) (h (primary_server st)) in
      bind_r (py_get aggregate ''capabilities'' (JObj [])) (\<lambda>res.
      bind_r (py_get payload ''capabilities'' (JObj [])) (\<lambda>new.
      bind_r (py_items new) (\<lambda>items.
      bind_r (merge_caps res items) (\<lambda>res'.
      bind_r (py_setitem aggregate ''capabilities'' res') (\<lambda>aggregate1.
      bind_r (py_get payload ''serverInfo'' (JObj [])) (\<lambda>s_info.
        if truthy s_info then
          bind_r (merge_field aggregate1 s_info primary_payload ''name'' ''+'') (\<lambda>nm.
          bind_r (merge_field aggregate1 s_info primary_payload ''version'' '','') (\<lambda>ver.
            py_setitem aggregate1 ''serverInfo'' (JObj [(''name'', nm), (''version'', ver)])))
        else Inr aggregate1)))))))"

text \<open>The loop that gives a source to the diagnostics that have none.\<close>

fun tag_sources :: "json \<Rightarrow> json list \<Rightarrow> error + json list" where
  "tag_sources nm [] = Inr []"
| "tag_sources nm (diag # diags) =
     bind_r (py_contains ''source'' diag) (\<lambda>has.
     bind_r (if has then Inr diag else py_setitem diag ''source'' nm) (\<lambda>diag'.
     bind_r (tag_sources nm diags) (\<lambda>rest. Inr (diag' # rest))))"

definition aggregate_payloads ::
  "LspLogic \<Rightarrow> heap \<Rightarrow> string \<Rightarrow> json \<Rightarrow> json \<Rightarrow> ref \<Rightarrow> bool \<Rightarrow> error + json" where
  "aggregate_payloads st h method aggregate payload source is_error =
     (if is_error then Inr aggregate
      else if method = ''textDocument/publishDiagnostics'' then
        bind_r (py_get aggregate ''diagnostics'' (JArr [])) (\<lambda>current_diags.
        bind_r (py_get payload ''diagnostics'' (JArr [])) (\<lambda>new_diags.
        bind_r (py_iter new_diags) (\<lambda>diags.
        bind_r (tag_sources (name (h source)) diags) (\<lambda>tagged.
        bind_r (py_add current_diags
                  (case new_diags of JArr xs \<Rightarrow> JArr tagged | _ \<Rightarrow> new_diags)) (\<lambda>combined.
          py_setitem aggregate ''diagnostics'' combined)))))
      else if method = ''textDocument/codeAction'' then
        py_add (py_or aggregate (JArr [])) (py_or payload (JArr []))
      else if method = ''initialize'' then
        merge_initialize_payloads st h aggregate payload source
      else if method = ''shutdown'' then Inr aggregate
      else Inr aggregate)"

section \<open>Notions used in the statements\<close>


text \<open>
  The serverInfo rule in the specification's words: if either text is empty, the one
  that is not; otherwise both with the separator between them, the reply's text first
  when the reply is the primary server's, last otherwise.
\<close>

definition spec_merge_text :: "bool \<Rightarrow> string \<Rightarrow> string \<Rightarrow> string \<Rightarrow> string" where
  "spec_merge_text from_primary sep cur new =
     (if cur = [] then new
      else if new = [] then cur
      else if from_primary then new @ sep @ cur
      else cur @ sep @ new)"

text \<open>The number that a string of decimal digits denotes.\<close>

definition digit_value :: "string \<Rightarrow> nat" where
  "digit_value s = foldl (\<lambda>a c. 10 * a + (of_char c - 48)) 0 s"

text \<open>A JSON value as Python holds it: no dict has a key twice.\<close>

fun unique_keys :: "json \<Rightarrow> bool" where
  "unique_keys (JArr xs) = list_all unique_keys xs"
| "unique_keys (JObj kvs) = (distinct (map fst kvs) \<and> list_all (\<lambda>kv. unique_keys (snd kv)) kvs)"
| "unique_keys _ = True"

text \<open>
  Two heaps for the examples, with the primary server at address 0. In the first, the
  other servers have another name. In the second, the server at address 1 has the name,
  capabilities and cookie of the primary server, and the servers at 2, 3 and 4 differ
  from it in their capabilities, their cookie and their name.
\<close>

definition example_heap :: heap where
  "example_heap =
     (\<lambda>r. \<lparr>name = JStr (if r = 0 then ''pyright'' else ''ruff''), caps = JObj [], cookie = None\<rparr>)"

definition twin_heap :: heap where
  "twin_heap =
     (\<lambda>r. \<lparr>name = JStr (if r = 4 then ''pyright'' else ''ruff''),
           caps = JObj (if r = 2 then [(''hoverProvider'', JBool True)] else []),
           cookie = (if r = 3 then Some 9 else None)\<rparr>)"

section \<open>Facts about dicts and Python equality\<close>

lemma map_of_dict_set:
  "map_of (dict_set kvs k v) k' = (if k' = k then Some v else map_of kvs k')"
  by (induction kvs) auto


lemma py_eq_list_refl: "(\<forall>x \<in> set xs. py_eq x x) \<Longrightarrow> py_eq_list xs xs"
  by (induction xs) auto

lemma py_eq_items_found:
  "(\<forall>kv \<in> set a. map_of b (fst kv) = Some (snd kv) \<and> py_eq (snd kv) (snd kv))
     \<Longrightarrow> py_eq_items a b"
  by (induction a) auto

lemma py_eq_refl: "unique_keys x \<Longrightarrow> py_eq x x"
proof (induction x)
  case (JArr xs)
  then show ?case by (auto simp add: list_all_iff intro: py_eq_list_refl)
next
  case (JObj kvs)
  have "py_eq_items kvs kvs"
  proof (rule py_eq_items_found, rule ballI)
    fix kv assume kv: "kv \<in> set kvs"
    obtain k v where [simp]: "kv = (k, v)" by (cases kv)
    from JObj.prems kv have "map_of kvs k = Some v" by simp
    moreover from JObj.prems kv have "unique_keys v" by (auto simp add: list_all_iff)
    with JObj.IH kv have "py_eq v v" by (auto simp del: unique_keys.simps)
    ultimately show "map_of kvs (fst kv) = Some (snd kv) \<and> py_eq (snd kv) (snd kv)" by simp
  qed
  then show ?case by simp
qed simp_all

section \<open>Properties of the aggregation policy\<close>

text \<open>
  C4. Whatever the method, the payload and the source server, a reply flagged as an
  error leaves the aggregate as it is: \<^verbatim>\<open>aggregate_payloads\<close> returns the aggregate it
  was given.
\<close>

theorem error_reply_leaves_aggregate:
  "aggregate_payloads st h method aggregate payload source True = Inr aggregate"
  by (simp add: aggregate_payloads_def)

text \<open>
  C3. For a tracked document, a diagnostics notification whose version is present (not
  \<^verbatim>\<open>None\<close>) and strictly less than the tracked version yields the drop signal, never a
  key. The URI is the payload's, or the empty string when the payload has none; \<open>k\<close> is
  that URI as a key of the version table.
\<close>

theorem stale_diagnostics_dropped:
  assumes "dict_key (case map_of kvs ''uri'' of None \<Rightarrow> JStr [] | Some u \<Rightarrow> u) = Inr k"
    and "map_of (document_versions st) k = Some tracked_version"
    and "map_of kvs ''version'' = Some version"
    and "version \<noteq> JNull"
    and "py_lt version tracked_version = Inr True"
  shows "get_notif_aggregation_key st (Some ''textDocument/publishDiagnostics'') (JObj kvs)
           = Inr (Some Drop)"
  using assms by (simp add: get_notif_aggregation_key_def bind_r_def)

theorem stale_diagnostics_dropped_witness:
  "get_notif_aggregation_key
     ((init 0)\<lparr>document_versions := [(JStr ''file:///a.py'', JInt 3)]\<rparr>)
     (Some ''textDocument/publishDiagnostics'')
     (JObj [(''uri'', JStr ''file:///a.py''), (''version'', JInt 2), (''diagnostics'', JArr [])])
   = Inr (Some Drop)"
  by (rule stale_diagnostics_dropped [where k = "JStr ''file:///a.py''"
        and tracked_version = "JInt 3" and version = "JInt 2"]) simp_all

text \<open>
  C6. For a diagnostics notification without a version, the key is the tuple of the tag
  \<^verbatim>\<open>'notification'\<close>, the method, the payload's URI and the version tracked for that
  URI, or 0 when the URI is not tracked. The version table holds integers
  (\<^verbatim>\<open>dict[str, int]\<close>).
\<close>

theorem key_without_version:
  assumes "map_of kvs ''version'' = None"
    and "uri = (case map_of kvs ''uri'' of None \<Rightarrow> JStr [] | Some u \<Rightarrow> u)"
    and "dict_key uri = Inr k"
    and "\<forall>t. map_of (document_versions st) k = Some t \<longrightarrow> (\<exists>i. t = JInt i)"
  shows "get_notif_aggregation_key st (Some ''textDocument/publishDiagnostics'') (JObj kvs)
           = Inr (Some (Key ''notification'' ''textDocument/publishDiagnostics'' uri
                          (case map_of (document_versions st) k of None \<Rightarrow> JInt 0 | Some t \<Rightarrow> t)))"
  using assms
  by (auto simp add: get_notif_aggregation_key_def bind_r_def py_or_def split: option.splits)

theorem key_without_version_witness:
  "get_notif_aggregation_key
     ((init 0)\<lparr>document_versions := [(JStr ''file:///a.py'', JInt 3)]\<rparr>)
     (Some ''textDocument/publishDiagnostics'')
     (JObj [(''uri'', JStr ''file:///a.py''), (''diagnostics'', JArr [])])
   = Inr (Some (Key ''notification'' ''textDocument/publishDiagnostics''
                  (JStr ''file:///a.py'') (JInt 3)))
   \<and> get_notif_aggregation_key
     ((init 0)\<lparr>document_versions := [(JStr ''file:///a.py'', JInt 3)]\<rparr>)
     (Some ''textDocument/publishDiagnostics'')
     (JObj [(''uri'', JStr ''file:///b.py''), (''diagnostics'', JArr [])])
   = Inr (Some (Key ''notification'' ''textDocument/publishDiagnostics''
                  (JStr ''file:///b.py'') (JInt 0)))"
  using key_without_version [of "[(''uri'', JStr ''file:///a.py''), (''diagnostics'', JArr [])]"
          "JStr ''file:///a.py''" "JStr ''file:///a.py''"
          "(init 0)\<lparr>document_versions := [(JStr ''file:///a.py'', JInt 3)]\<rparr>"]
        key_without_version [of "[(''uri'', JStr ''file:///b.py''), (''diagnostics'', JArr [])]"
          "JStr ''file:///b.py''" "JStr ''file:///b.py''"
          "(init 0)\<lparr>document_versions := [(JStr ''file:///a.py'', JInt 3)]\<rparr>"]
  by simp

section \<open>Properties of the version table\<close>






section \<open>Properties of the routing\<close>

lemma resolve_not_special:
  assumes "endswith method ''resolve''"
  shows "method \<notin> set [''initialize'', ''shutdown'']"
    and "method \<noteq> ''textDocument/codeAction''"
    and "map_of single_target_caps method = None"
  using assms by (auto simp add: endswith_def single_target_caps_def)

text \<open>
  C5. A request whose method ends in \<^verbatim>\<open>resolve\<close> and whose \<^verbatim>\<open>params.data\<close> is a string
  with the token prefix that is no key of the cookie table is routed as if it had no
  cookie: no method of the other rules ends in \<^verbatim>\<open>resolve\<close>, so with a non-empty
  candidate list the call returns the primary server alone, with \<^verbatim>\<open>params\<close> as they
  were, and raises nothing.
\<close>

theorem unknown_token_default_route:
  assumes "endswith method ''resolve''"
    and "map_of kvs ''data'' = Some (JStr token)"
    and "startswith token ''rassumfrassum-''"
    and "data_cookies st token = None"
    and "servers \<noteq> []"
  shows "servers_to_route_to st h method (JObj kvs) servers = Inr (JObj kvs, [primary_server st])"
proof -
  from assms(2) have "kvs \<noteq> []" by auto
  with assms(1,2) have "cookie_candidate method (JObj kvs) = Inr (JStr token)"
    by (simp add: cookie_candidate_def)
  moreover from assms(3,4) have "recovered_cookie st (JStr token) = None" by simp
  ultimately show ?thesis
    using resolve_not_special [OF assms(1)] assms(5)
    by (simp add: servers_to_route_to_def bind_r_def)
qed

theorem unknown_token_default_route_witness:
  "servers_to_route_to (init 0) example_heap ''codeAction/resolve''
     (JObj [(''title'', JStr ''Fix''), (''data'', JStr ''rassumfrassum-9'')]) [0, 1]
   = Inr (JObj [(''title'', JStr ''Fix''), (''data'', JStr ''rassumfrassum-9'')], [0])"
proof -
  have suffix: "endswith ''codeAction/resolve'' ''resolve''"
    by (simp add: endswith_def)
  have pre: "startswith ''rassumfrassum-9'' ''rassumfrassum-''"
    by (simp add: startswith_def)
  from unknown_token_default_route [where st = "init 0" and h = example_heap
      and kvs = "[(''title'', JStr ''Fix''), (''data'', JStr ''rassumfrassum-9'')]"
      and servers = "[0, 1]", OF suffix _ pre]
  show ?thesis by (simp add: init_def)
qed

text \<open>The decimal text of the counter tells the counters apart.\<close>

declare digits.simps [simp del]

lemma digit_value_digits: "digit_value (digits n) = n"
proof (induction n rule: digits.induct)
  case (1 n)
  show ?case
  proof (cases "n < 10")
    case True
    then show ?thesis by (subst digits.simps) (simp add: digit_value_def)
  next
    case False
    have "n mod 10 < 10" by simp
    then have "(48 + n mod 10) mod 256 = 48 + n mod 10" by simp
    with False 1 show ?thesis
      by (subst digits.simps) (simp add: digit_value_def)
  qed
qed

lemma digits_inj: "digits m = digits n \<Longrightarrow> m = n"
  by (metis digit_value_digits)

lemma digits_not_Nil: "digits n \<noteq> []"
  by (subst digits.simps) simp

lemma hd_digits: "hd (digits n) \<noteq> CHR ''-''"
proof (induction n rule: digits.induct)
  case (1 n)
  show ?case
  proof (cases "n < 10")
    case True
    have "char_of (48 + n) \<noteq> CHR ''-''"
    proof
      assume "char_of (48 + n) = CHR ''-''"
      then have "(of_char (char_of (48 + n) :: char) :: nat) = of_char CHR ''-''" by simp
      with True show False by simp
    qed
    with True show ?thesis by (subst digits.simps) simp
  next
    case False
    with 1 digits_not_Nil [of "n div 10"] show ?thesis
      by (subst digits.simps) (simp)
  qed
qed


lemma str_of_int_inj: "str_of_int i = str_of_int j \<Longrightarrow> i = j"
proof -
  assume eq: "str_of_int i = str_of_int j"
  consider "i < 0" "j < 0" | "i < 0" "0 \<le> j" | "0 \<le> i" "j < 0" | "0 \<le> i" "0 \<le> j"
    by linarith
  then show ?thesis
  proof cases
    case 1
    with eq have "nat (- i) = nat (- j)" by (auto simp add: str_of_int_def dest: digits_inj)
    with 1 show ?thesis by simp
  next
    case 2
    with eq have "hd (digits (nat j)) = CHR ''-''" by (auto simp add: str_of_int_def dest: arg_cong [where f = hd])
    with hd_digits show ?thesis by blast
  next
    case 3
    with eq have "hd (digits (nat i)) = CHR ''-''" by (auto simp add: str_of_int_def dest: arg_cong [where f = hd])
    with hd_digits show ?thesis by blast
  next
    case 4
    with eq have "nat i = nat j" by (auto simp add: str_of_int_def dest: digits_inj)
    with 4 show ?thesis by simp
  qed
qed

lemma stash_keeps_cookie:
  assumes "data_cookies st (''rassumfrassum-'' @ str_of_int n) = Some c"
    and "n \<le> data_cookie_counter st"
  shows "data_cookies (fst (stash_data_maybe st payload srv)) (''rassumfrassum-'' @ str_of_int n)
           = Some c
         \<and> n \<le> data_cookie_counter (fst (stash_data_maybe st payload srv))"
proof -
  from assms(2) have "n \<noteq> data_cookie_counter st + 1" by simp
  then have "str_of_int n \<noteq> str_of_int (data_cookie_counter st + 1)"
    using str_of_int_inj by blast
  with assms show ?thesis
    by (auto simp add: stash_data_maybe_def Let_def split: sum.splits bool.splits)
qed

lemma stash_all_keeps_cookie:
  assumes "data_cookies st (''rassumfrassum-'' @ str_of_int n) = Some c"
    and "n \<le> data_cookie_counter st"
  shows "data_cookies (stash_all st later) (''rassumfrassum-'' @ str_of_int n) = Some c"
  using assms
proof (induction later arbitrary: st)
  case Nil
  then show ?case by simp
next
  case (Cons x later)
  obtain payload srv where x: "x = (payload, srv)" by (cases x)
  from stash_keeps_cookie [OF Cons.prems, of payload srv] Cons.IH x
  show ?case by simp
qed

text \<open>
  C2. Stashing the \<^verbatim>\<open>data\<close> field \<open>D\<close> of an item for the server \<open>S\<close> puts the token
  \<^verbatim>\<open>rassumfrassum-<counter>\<close> in its place. A routing call that follows, at once or
  after any further stashing, for a method ending in \<^verbatim>\<open>resolve\<close> with that token as
  \<^verbatim>\<open>params.data\<close>, puts \<open>D\<close> back and returns the list \<open>[S]\<close>, whatever the
  candidates and whichever server is the primary.
\<close>

theorem stash_then_recover:
  assumes "map_of item ''data'' = Some D"
    and "token = ''rassumfrassum-'' @ str_of_int (data_cookie_counter st + 1)"
    and "endswith method ''resolve''"
    and "map_of ps ''data'' = Some (JStr token)"
  shows "snd (stash_data_maybe st (JObj item) S)
           = Inr (JObj (dict_set item ''data'' (JStr token)))
       \<and> map_of (dict_set item ''data'' (JStr token)) ''data'' = Some (JStr token)
       \<and> servers_to_route_to (stash_all (fst (stash_data_maybe st (JObj item) S)) later)
             h method (JObj ps) servers
           = Inr (JObj (dict_set ps ''data'' D), [S])"
proof -
  from assms(1) have item: "item \<noteq> []" by auto
  from assms(4) have ps: "ps \<noteq> []" by auto
  have stash: "stash_data_maybe st (JObj item) S =
      (st\<lparr>data_cookie_counter := data_cookie_counter st + 1,
          data_cookies := (data_cookies st)(token \<mapsto> \<lparr>data = D, server = S\<rparr>)\<rparr>,
       Inr (JObj (dict_set item ''data'' (JStr token))))"
    using assms(1,2) item by (simp add: stash_data_maybe_def Let_def)
  let ?st' = "fst (stash_data_maybe st (JObj item) S)"
  have "data_cookies ?st' (''rassumfrassum-'' @ str_of_int (data_cookie_counter st + 1))
          = Some \<lparr>data = D, server = S\<rparr>"
    and "data_cookie_counter st + 1 \<le> data_cookie_counter ?st'"
    using assms(2) by (simp_all add: stash)
  from stash_all_keeps_cookie [OF this, of later] assms(2)
  have kept: "data_cookies (stash_all ?st' later) token = Some \<lparr>data = D, server = S\<rparr>"
    by simp
  have cand: "cookie_candidate method (JObj ps) = Inr (JStr token)"
    using assms(3,4) ps by (simp add: cookie_candidate_def)
  have pre: "startswith token ''rassumfrassum-''"
    using assms(2) by (simp add: startswith_def)
  from cand pre kept have
    "servers_to_route_to (stash_all ?st' later) h method (JObj ps) servers
       = Inr (JObj (dict_set ps ''data'' D), [S])"
    by (simp add: servers_to_route_to_def bind_r_def)
  then show ?thesis
    by (simp add: stash map_of_dict_set)
qed

theorem stash_then_recover_witness:
  "snd (stash_data_maybe (init 0) (JObj [(''title'', JStr ''Fix''), (''data'', JInt 5)]) 3)
     = Inr (JObj [(''title'', JStr ''Fix''), (''data'', JStr ''rassumfrassum-1'')])
   \<and> servers_to_route_to
       (stash_all
          (fst (stash_data_maybe (init 0) (JObj [(''title'', JStr ''Fix''), (''data'', JInt 5)]) 3))
          [(JObj [(''title'', JStr ''Sort''), (''data'', JStr ''x'')], 1)])
       example_heap ''codeAction/resolve''
       (JObj [(''title'', JStr ''Fix''), (''data'', JStr ''rassumfrassum-1'')]) [0, 1]
     = Inr (JObj [(''title'', JStr ''Fix''), (''data'', JInt 5)], [3])"
proof -
  have token: "''rassumfrassum-1'' = ''rassumfrassum-'' @ str_of_int (data_cookie_counter (init 0) + 1)"
    by (simp add: init_def str_of_int_def) code_simp
  have suffix: "endswith ''codeAction/resolve'' ''resolve''"
    by (simp add: endswith_def)
  from stash_then_recover [where item = "[(''title'', JStr ''Fix''), (''data'', JInt 5)]"
      and D = "JInt 5" and st = "init 0" and S = 3 and h = example_heap and servers = "[0, 1]"
      and later = "[(JObj [(''title'', JStr ''Sort''), (''data'', JStr ''x'')], 1)]"
      and ps = "[(''title'', JStr ''Fix''), (''data'', JStr ''rassumfrassum-1'')]",
      OF _ token suffix]
  show ?thesis by simp
qed

text \<open>
  C10. The servers returned need not be among the candidates. When no cookie is
  recovered and the method is none of the six that the other rules name, a non-empty
  candidate list gives the primary server that the engine holds; when a cookie is
  recovered, the call gives the server of that cookie. Neither rule looks for its server
  in the candidate list.
\<close>

theorem routes_outside_candidates:
  "(cookie_candidate method params = Inr d \<and> recovered_cookie st d = None
      \<and> method \<notin> set [''initialize'', ''shutdown'', ''textDocument/codeAction'',
           ''textDocument/rename'', ''textDocument/formatting'', ''textDocument/rangeFormatting'']
      \<and> servers \<noteq> []
      \<longrightarrow> servers_to_route_to st h method params servers = Inr (params, [primary_server st]))
   \<and> (cookie_candidate method params = Inr d \<and> recovered_cookie st d = Some c
      \<longrightarrow> (\<exists>params'. servers_to_route_to st h method params servers
             = Inr (params', [server c])))"
proof (intro conjI impI)
  assume a: "cookie_candidate method params = Inr d \<and> recovered_cookie st d = None
      \<and> method \<notin> set [''initialize'', ''shutdown'', ''textDocument/codeAction'',
           ''textDocument/rename'', ''textDocument/formatting'', ''textDocument/rangeFormatting'']
      \<and> servers \<noteq> []"
  then have "map_of single_target_caps method = None"
    by (simp add: single_target_caps_def)
  with a show "servers_to_route_to st h method params servers = Inr (params, [primary_server st])"
    by (simp add: servers_to_route_to_def bind_r_def)
next
  assume b: "cookie_candidate method params = Inr d \<and> recovered_cookie st d = Some c"
  then obtain s where d: "d = JStr s" by (cases d) auto
  with b obtain kvs where "params = JObj kvs"
    by (cases params) (auto simp add: cookie_candidate_def split: if_splits)
  with b show "\<exists>params'. servers_to_route_to st h method params servers
             = Inr (params', [server c])"
    by (simp add: servers_to_route_to_def bind_r_def)
qed

theorem routes_outside_candidates_witness:
  "servers_to_route_to (init 7) example_heap ''textDocument/hover'' (JObj []) [0, 1]
     = Inr (JObj [], [7])
   \<and> (7::nat) \<notin> set [0, 1]
   \<and> (\<exists>params'. servers_to_route_to
         ((init 0)\<lparr>data_cookies := [''rassumfrassum-1'' \<mapsto> \<lparr>data = JInt 5, server = 3\<rparr>]\<rparr>)
         example_heap ''codeAction/resolve'' (JObj [(''data'', JStr ''rassumfrassum-1'')]) [0, 1]
       = Inr (params', [3]))
   \<and> (3::nat) \<notin> set [0, 1]"
proof -
  have 1: "cookie_candidate ''textDocument/hover'' (JObj []) = Inr JNull"
    by (simp add: cookie_candidate_def)
  have 2: "cookie_candidate ''codeAction/resolve'' (JObj [(''data'', JStr ''rassumfrassum-1'')])
      = Inr (JStr ''rassumfrassum-1'')"
    by (simp add: cookie_candidate_def endswith_def)
  have 3: "recovered_cookie
      ((init 0)\<lparr>data_cookies := [''rassumfrassum-1'' \<mapsto> \<lparr>data = JInt 5, server = 3\<rparr>]\<rparr>)
      (JStr ''rassumfrassum-1'') = Some \<lparr>data = JInt 5, server = 3\<rparr>"
    by (simp add: startswith_def)
  from routes_outside_candidates [of "''textDocument/hover''" "JObj []" JNull "init 7"
      "[0, 1]" example_heap]
    routes_outside_candidates [of "''codeAction/resolve''"
      "JObj [(''data'', JStr ''rassumfrassum-1'')]" "JStr ''rassumfrassum-1''"
      "(init 0)\<lparr>data_cookies := [''rassumfrassum-1'' \<mapsto> \<lparr>data = JInt 5, server = 3\<rparr>]\<rparr>"
      "[0, 1]" example_heap "\<lparr>data = JInt 5, server = 3\<rparr>"]
    1 2 3
  show ?thesis by (simp add: init_def)
qed

section \<open>Properties of the handshake merge\<close>

lemma merge_cap_dict: "\<exists>r'. merge_cap (JObj r) item = Inr (JObj r')"
  by (auto simp add: merge_cap_def bind_r_def Let_def split: json.splits)

lemma merge_caps_dict: "\<exists>r'. merge_caps (JObj r) items = Inr (JObj r')"
proof (induction items arbitrary: r)
  case Nil
  then show ?case by simp
next
  case (Cons item items)
  from merge_cap_dict obtain r1 where "merge_cap (JObj r) item = Inr (JObj r1)" by blast
  with Cons [of r1] show ?case by (simp add: bind_r_def)
qed

lemma merge_cap_other:
  assumes "merge_cap (JObj r) (cap, v) = Inr (JObj r')" and "k \<noteq> cap"
  shows "map_of r' k = map_of r k"
  using assms
  by (auto simp add: merge_cap_def bind_r_def Let_def map_of_dict_set
      split: json.splits if_splits)

lemma merge_cap_full_sync:
  assumes "t1sync v"
  shows "\<exists>r'. merge_cap (JObj r) (''textDocumentSync'', v) = Inr (JObj r')
           \<and> map_of r' ''textDocumentSync'' = Some v"
  using assms by (simp add: merge_cap_def bind_r_def Let_def map_of_dict_set)

lemma merge_caps_keeps:
  assumes "k \<notin> fst ` set items"
  shows "\<exists>r'. merge_caps (JObj r) items = Inr (JObj r') \<and> map_of r' k = map_of r k"
  using assms
proof (induction items arbitrary: r)
  case Nil
  then show ?case by simp
next
  case (Cons item items)
  obtain cap v where item: "item = (cap, v)" by (cases item)
  from merge_cap_dict obtain r1 where r1: "merge_cap (JObj r) item = Inr (JObj r1)" by blast
  from Cons.prems item have "k \<noteq> cap" by auto
  with r1 item have "map_of r1 k = map_of r k" by (auto dest: merge_cap_other)
  moreover from Cons.prems have "k \<notin> fst ` set items" by auto
  from Cons.IH [OF this, of r1] obtain r' where
    "merge_caps (JObj r1) items = Inr (JObj r')" "map_of r' k = map_of r1 k" by blast
  ultimately show ?case using r1 by (simp add: bind_r_def)
qed

text \<open>
  The half of C1 that the loop does keep: a reply whose \<^verbatim>\<open>textDocumentSync\<close> denotes
  full sync puts its value in the aggregate's capabilities, whatever was there.
\<close>

lemma merge_caps_full_sync:
  assumes "distinct (map fst items)"
    and "(''textDocumentSync'', v) \<in> set items"
    and "t1sync v"
  shows "\<exists>r'. merge_caps (JObj r) items = Inr (JObj r')
           \<and> map_of r' ''textDocumentSync'' = Some v"
  using assms
proof (induction items arbitrary: r)
  case Nil
  then show ?case by simp
next
  case (Cons item items)
  obtain cap w where item: "item = (cap, w)" by (cases item)
  from merge_cap_dict obtain r1 where r1: "merge_cap (JObj r) item = Inr (JObj r1)" by blast
  show ?case
  proof (cases "item = (''textDocumentSync'', v)")
    case True
    with merge_cap_full_sync [OF Cons.prems(3), of r] r1
    have a: "map_of r1 ''textDocumentSync'' = Some v" by simp
    from True Cons.prems(1) have "''textDocumentSync'' \<notin> fst ` set items" by auto
    from merge_caps_keeps [OF this, of r1] a r1 show ?thesis by (simp add: bind_r_def)
  next
    case False
    with Cons.prems have "distinct (map fst items)" "(''textDocumentSync'', v) \<in> set items"
      by auto
    from Cons.IH [OF this Cons.prems(3), of r1] r1 show ?thesis by (simp add: bind_r_def)
  qed
qed

text \<open>
  C1, at the input where the code leaves it. The aggregate holds the bare full-sync
  value 1 and the later reply announces incremental sync in the structured form: the
  rule that lets a structured value replace a scalar fires, and the merged handshake
  announces incremental sync.
\<close>

theorem full_sync_downgraded:
  "t1sync (JInt 1) \<and>
   \<not> t1sync (JObj [(''openClose'', JBool True), (''change'', JInt 2)]) \<and>
   aggregate_payloads (init 0) example_heap ''initialize''
     (JObj [(''capabilities'', JObj [(''textDocumentSync'', JInt 1)])])
     (JObj [(''capabilities'',
            JObj [(''textDocumentSync'', JObj [(''openClose'', JBool True), (''change'', JInt 2)])])])
     1 False
   = Inr (JObj [(''capabilities'',
            JObj [(''textDocumentSync'', JObj [(''openClose'', JBool True), (''change'', JInt 2)])])])"
  by (simp add: aggregate_payloads_def merge_initialize_payloads_def bind_r_def merge_cap_def)

lemma merge_field_text:
  assumes "py_get aggregate ''serverInfo'' (JObj []) = Inr merged_info"
    and "py_get merged_info field (JStr []) = Inr (JStr cur)"
    and "py_get s_info field (JStr []) = Inr (JStr new)"
  shows "merge_field aggregate s_info primary_payload field sep
           = Inr (JStr (spec_merge_text primary_payload sep cur new))"
  using assms by (simp add: merge_field_def bind_r_def py_or_def spec_merge_text_def)

lemma server_eq_refl:
  "unique_keys (name a) \<Longrightarrow> unique_keys (caps a) \<Longrightarrow> server_eq a a"
  by (simp add: server_eq_def py_eq_refl)

text \<open>
  The serverInfo rule as the code applies it: the order of the two texts follows the
  engine's test \<^verbatim>\<open>source == self.primary_server\<close>.
\<close>

lemma server_info_merge:
  assumes "py_get (JObj a) ''capabilities'' (JObj []) = Inr (JObj r)"
    and "py_get (JObj p) ''capabilities'' (JObj []) = Inr (JObj n)"
    and "py_get (JObj a) ''serverInfo'' (JObj []) = Inr (JObj mi)"
    and "py_get (JObj mi) ''name'' (JStr []) = Inr (JStr cur_name)"
    and "py_get (JObj mi) ''version'' (JStr []) = Inr (JStr cur_version)"
    and "py_get (JObj p) ''serverInfo'' (JObj []) = Inr (JObj si)"
    and "si \<noteq> []"
    and "py_get (JObj si) ''name'' (JStr []) = Inr (JStr new_name)"
    and "py_get (JObj si) ''version'' (JStr []) = Inr (JStr new_version)"
    and "from_primary = server_eq (h source) (h (primary_server st))"
  shows "\<exists>a'. merge_initialize_payloads st h (JObj a) (JObj p) source = Inr (JObj a')
           \<and> map_of a' ''serverInfo'' =
               Some (JObj [(''name'', JStr (spec_merge_text from_primary ''+'' cur_name new_name)),
                           (''version'',
                            JStr (spec_merge_text from_primary '','' cur_version new_version))])"
proof -
  from merge_caps_dict obtain r' where r': "merge_caps (JObj r) n = Inr (JObj r')" by blast
  let ?a1 = "JObj (dict_set a ''capabilities'' (JObj r'))"
  from assms(3) have info: "py_get ?a1 ''serverInfo'' (JObj []) = Inr (JObj mi)"
    by (simp add: map_of_dict_set)
  note nm = merge_field_text [OF info assms(4) assms(8), of from_primary "''+''"]
  note ver = merge_field_text [OF info assms(5) assms(9), of from_primary "'',''"]
  from assms(1,2) r' assms(6,7) nm ver assms(10) show ?thesis
    by (simp add: merge_initialize_payloads_def bind_r_def Let_def map_of_dict_set
        del: py_get.simps)
qed

text \<open>
  What C7 says holds as long as no other server has the name, capabilities and cookie
  of the primary server: then the reply's text comes first exactly when the source is
  the primary server itself.
\<close>

lemma server_info_merge_by_identity:
  assumes "py_get (JObj a) ''capabilities'' (JObj []) = Inr (JObj r)"
    and "py_get (JObj p) ''capabilities'' (JObj []) = Inr (JObj n)"
    and "py_get (JObj a) ''serverInfo'' (JObj []) = Inr (JObj mi)"
    and "py_get (JObj mi) ''name'' (JStr []) = Inr (JStr cur_name)"
    and "py_get (JObj mi) ''version'' (JStr []) = Inr (JStr cur_version)"
    and "py_get (JObj p) ''serverInfo'' (JObj []) = Inr (JObj si)"
    and "si \<noteq> []"
    and "py_get (JObj si) ''name'' (JStr []) = Inr (JStr new_name)"
    and "py_get (JObj si) ''version'' (JStr []) = Inr (JStr new_version)"
    and "unique_keys (name (h (primary_server st)))"
    and "unique_keys (caps (h (primary_server st)))"
    and "source \<noteq> primary_server st \<longrightarrow> \<not> server_eq (h source) (h (primary_server st))"
  shows "\<exists>a'. merge_initialize_payloads st h (JObj a) (JObj p) source = Inr (JObj a')
           \<and> map_of a' ''serverInfo'' =
               Some (JObj [(''name'',
                            JStr (spec_merge_text (source = primary_server st) ''+''
                                    cur_name new_name)),
                           (''version'',
                            JStr (spec_merge_text (source = primary_server st) '',''
                                    cur_version new_version))])"
proof -
  from server_eq_refl [OF assms(10,11)] assms(12)
  have "(source = primary_server st) = server_eq (h source) (h (primary_server st))"
    by auto
  from server_info_merge [OF assms(1-9) this] show ?thesis .
qed

lemma server_info_merge_by_identity_example:
  "(\<exists>a'. merge_initialize_payloads (init 0) example_heap
            (JObj [(''serverInfo'', JObj [(''name'', JStr ''A''), (''version'', JStr ''1.0'')])])
            (JObj [(''serverInfo'', JObj [(''name'', JStr ''B'')])]) 1 = Inr (JObj a')
         \<and> map_of a' ''serverInfo'' =
             Some (JObj [(''name'', JStr ''A+B''), (''version'', JStr ''1.0'')]))
   \<and> (\<exists>a'. merge_initialize_payloads (init 0) example_heap
            (JObj [(''serverInfo'', JObj [(''name'', JStr ''A''), (''version'', JStr ''1.0'')])])
            (JObj [(''serverInfo'', JObj [(''name'', JStr ''B''), (''version'', JStr ''2'')])]) 0
              = Inr (JObj a')
         \<and> map_of a' ''serverInfo'' =
             Some (JObj [(''name'', JStr ''B+A''), (''version'', JStr ''2,1.0'')]))"
  using server_info_merge_by_identity [where st = "init 0" and h = example_heap and source = 1
      and a = "[(''serverInfo'', JObj [(''name'', JStr ''A''), (''version'', JStr ''1.0'')])]"
      and p = "[(''serverInfo'', JObj [(''name'', JStr ''B'')])]"
      and r = "[]" and n = "[]"
      and mi = "[(''name'', JStr ''A''), (''version'', JStr ''1.0'')]"
      and si = "[(''name'', JStr ''B'')]"
      and cur_name = "''A''" and cur_version = "''1.0''"
      and new_name = "''B''" and new_version = "[]"]
    server_info_merge_by_identity [where st = "init 0" and h = example_heap and source = 0
      and a = "[(''serverInfo'', JObj [(''name'', JStr ''A''), (''version'', JStr ''1.0'')])]"
      and p = "[(''serverInfo'', JObj [(''name'', JStr ''B''), (''version'', JStr ''2'')])]"
      and r = "[]" and n = "[]"
      and mi = "[(''name'', JStr ''A''), (''version'', JStr ''1.0'')]"
      and si = "[(''name'', JStr ''B''), (''version'', JStr ''2'')]"
      and cur_name = "''A''" and cur_version = "''1.0''"
      and new_name = "''B''" and new_version = "''2''"]
  by (simp add: init_def example_heap_def server_eq_def spec_merge_text_def)

text \<open>
  C7, at the input where the code leaves it. The server at address 1 is not the primary
  server, which is at address 0, but has its name, capabilities and cookie. Its reply
  did not come from the primary server, and still its name and its version are placed
  before the aggregate's, as the primary server's would be. The reply of the server at
  address 4, whose name differs, is placed after them.
\<close>

theorem look_alike_reply_placed_first:
  "(1::nat) \<noteq> primary_server (init 0) \<and>
   merge_initialize_payloads (init 0) twin_heap
     (JObj [(''serverInfo'', JObj [(''name'', JStr ''A''), (''version'', JStr ''1.0'')])])
     (JObj [(''serverInfo'', JObj [(''name'', JStr ''B''), (''version'', JStr ''2'')])]) 1
   = Inr (JObj [(''serverInfo'', JObj [(''name'', JStr ''B+A''), (''version'', JStr ''2,1.0'')]),
                (''capabilities'', JObj [])]) \<and>
   merge_initialize_payloads (init 0) twin_heap
     (JObj [(''serverInfo'', JObj [(''name'', JStr ''A''), (''version'', JStr ''1.0'')])])
     (JObj [(''serverInfo'', JObj [(''name'', JStr ''B''), (''version'', JStr ''2'')])]) 4
   = Inr (JObj [(''serverInfo'', JObj [(''name'', JStr ''A+B''), (''version'', JStr ''1.0,2'')]),
                (''capabilities'', JObj [])])"
  by (simp add: twin_heap_def init_def server_eq_def merge_initialize_payloads_def
      merge_field_def bind_r_def py_or_def)

text \<open>
  C8, at the input where the code leaves it. The engine compares servers with the
  \<^verbatim>\<open>==\<close> that \<^verbatim>\<open>@dataclass\<close> generates, which compares name, capabilities and
  cookie. The server at address 1 is another object than the primary server at address
  0 and has the same three fields: the engine finds the two equal and merges the reply
  of the one as it merges a reply of the other, the reply's name first. A server that
  differs from the primary server in its capabilities alone (address 2), in its cookie
  alone (address 3) or in its name alone (address 4) is found different, and its name
  goes last.
\<close>

theorem distinct_servers_equal:
  "(1::nat) \<noteq> primary_server (init 0) \<and>
   name (twin_heap 1) = name (twin_heap 0) \<and>
   caps (twin_heap 1) = caps (twin_heap 0) \<and>
   cookie (twin_heap 1) = cookie (twin_heap 0) \<and>
   server_eq (twin_heap 1) (twin_heap (primary_server (init 0))) \<and>
   \<not> server_eq (twin_heap 2) (twin_heap (primary_server (init 0))) \<and>
   \<not> server_eq (twin_heap 3) (twin_heap (primary_server (init 0))) \<and>
   \<not> server_eq (twin_heap 4) (twin_heap (primary_server (init 0))) \<and>
   merge_initialize_payloads (init 0) twin_heap
     (JObj [(''serverInfo'', JObj [(''name'', JStr ''A'')])])
     (JObj [(''serverInfo'', JObj [(''name'', JStr ''B'')])]) 1
   = Inr (JObj [(''serverInfo'', JObj [(''name'', JStr ''B+A''), (''version'', JStr [])]),
                (''capabilities'', JObj [])]) \<and>
   merge_initialize_payloads (init 0) twin_heap
     (JObj [(''serverInfo'', JObj [(''name'', JStr ''A'')])])
     (JObj [(''serverInfo'', JObj [(''name'', JStr ''B'')])]) 2
   = Inr (JObj [(''serverInfo'', JObj [(''name'', JStr ''A+B''), (''version'', JStr [])]),
                (''capabilities'', JObj [])]) \<and>
   merge_initialize_payloads (init 0) twin_heap
     (JObj [(''serverInfo'', JObj [(''name'', JStr ''A'')])])
     (JObj [(''serverInfo'', JObj [(''name'', JStr ''B'')])]) 3
   = Inr (JObj [(''serverInfo'', JObj [(''name'', JStr ''A+B''), (''version'', JStr [])]),
                (''capabilities'', JObj [])])"
  by (simp add: twin_heap_def init_def server_eq_def merge_initialize_payloads_def
      merge_field_def bind_r_def py_or_def)

end
